theory Spec2Isabelle
  imports Main "HOL-Library.AList" "HOL-Library.Multiset"
begin

section \<open>Data model of \<open>src/index.ts\<close>\<close>

text \<open>
  The class \<open>Auth0Web\<close> wraps the \<open>auth0-js\<close> client. Its methods are embedded as
  functions on a record of the instance's fields. What the class receives from outside
  is a parameter of the function that consumes it: the value \<open>Date.now()\<close> returns, and
  the \<open>(error, result)\<close> pair the SDK hands to a callback (a sum: \<open>Inl\<close> a truthy error
  object, \<open>Inr\<close> the result). What the class does to the outside is written into the
  record: the URL fragment \<open>window.location.hash\<close>, and the list \<open>effects\<close> of the SDK
  calls made and subscriber callbacks invoked, in the order they happen.

  Conventions.
  \<^item> A JavaScript number is an \<open>int\<close> (\<open>expiresIn\<close>, \<open>expiresAt\<close>) or a \<open>nat\<close> (the
    clock, in milliseconds); the source only multiplies by 1000 and adds.
  \<^item> An optional string parameter is a \<open>string option\<close>; \<open>None\<close> is \<open>undefined\<close>.
  \<^item> \<open>_accessTokens\<close> is a plain object \<open>{}\<close>, read with \<open>obj[key]\<close> and tested for
    truthiness: the model keeps its own properties and its prototype, and a read
    follows the prototype chain (see \<open>TokenMap\<close> below).
  \<^item> A subscriber is a value of an arbitrary type \<open>'f\<close>; invoking it is recorded in
    \<open>effects\<close>. A subscriber neither throws nor calls back into the instance.
  \<^item> A promise is represented by the way it settles. A method that waits for the SDK
    is one function from the call to the settlement; its state argument is the state
    the SDK's callback finds. Between the call of \<open>userInfo\<close> and its callback other
    methods may run: \<open>loadProfile\<close> is a function of its own, and the reachable states
    below let it run at any time.
\<close>

definition IMPLICTY_RESPONSE_TYPE :: string where
  "IMPLICTY_RESPONSE_TYPE = ''token id_token''"

definition DEFAULT_KEY :: string where
  "DEFAULT_KEY = ''default''"

record AuthResult =
  accessToken :: string
  idToken :: string
  expiresIn :: int

record TokenDetails =
  accessToken :: string
  expiresAt :: int

text \<open>The SDK's error object; \<open>error\<close> is the discriminator that \<open>checkSession\<close> reads.\<close>

record Auth0Error =
  error :: string
  errorDescription :: string

record AuthOptions =
  domain :: string
  clientID :: string
  redirectUri :: "string option"
  responseType :: "string option"

text \<open>
  The object behind \<open>_accessTokens\<close>. Its own properties are token entries. Its
  prototype is \<open>Object.prototype\<close> (\<open>None\<close>) until an entry is assigned to the name
  \<open>__proto__\<close>: that name is an accessor of \<open>Object.prototype\<close> whose setter makes the
  assigned object the prototype, so the prototype is then that entry (\<open>Some d\<close>), whose
  own prototype is \<open>Object.prototype\<close>.
\<close>

record TokenMap =
  own :: "string \<rightharpoonup> TokenDetails"
  proto :: "TokenDetails option"

text \<open>
  What a read \<open>obj[key]\<close> can return: \<open>undefined\<close>, a token entry, a member of
  \<open>Object.prototype\<close> (a function, or \<open>Object.prototype\<close> itself for \<open>__proto__\<close>), or a
  field of an entry that has become the prototype.
\<close>

datatype jsvalue =
    JsUndefined
  | JsEntry TokenDetails
  | JsInherited
  | JsString string
  | JsNumber int

datatype 'f effect =
    Authorize
  | Logout "string option" string
  | ParseHashCall
  | CheckSessionCall "string option" string
  | UserInfoCall string
  | Invoke 'f bool "string option"

datatype 'a promise = Resolved 'a | Rejected Auth0Error

record ('p, 'f) Auth0Web =
  auth0Client :: AuthOptions
  accessTokens :: TokenMap
  currentProperties :: AuthOptions
  idToken :: "string option"
  profile :: "'p option"
  subscribers :: "(nat \<times> 'f) list"
  location_hash :: string
  effects :: "'f effect list"

subsection \<open>JavaScript helpers\<close>

text \<open>An optional string is truthy when it is present and not empty.\<close>

fun truthy :: "string option \<Rightarrow> bool" where
  "truthy None = False"
| "truthy (Some a) = (a \<noteq> [])"

text \<open>\<open>audience || DEFAULT_KEY\<close>\<close>

fun or_default :: "string option \<Rightarrow> string" where
  "or_default None = DEFAULT_KEY"
| "or_default (Some a) = (if a = [] then DEFAULT_KEY else a)"

text \<open>
  The data properties \<open>Object.prototype\<close> has in ECMAScript (Annex B included); all are
  functions. \<open>__proto__\<close>, its one accessor, is treated apart.
\<close>

definition Object_prototype_names :: "string list" where
  "Object_prototype_names =
     [''constructor'', ''hasOwnProperty'', ''isPrototypeOf'', ''propertyIsEnumerable'',
      ''toLocaleString'', ''toString'', ''valueOf'', ''__defineGetter__'', ''__defineSetter__'',
      ''__lookupGetter__'', ''__lookupSetter__'']"

text \<open>\<open>{}\<close>\<close>

definition empty_object :: TokenMap where
  "empty_object = \<lparr>own = Map.empty, proto = None\<rparr>"

text \<open>
  The read \<open>obj[key]\<close>: \<open>__proto__\<close> answers the prototype; any other name answers the
  own property if there is one, then a field of a prototype entry, then a member of
  \<open>Object.prototype\<close>, and \<open>undefined\<close> otherwise.
\<close>

definition get_property :: "TokenMap \<Rightarrow> string \<Rightarrow> jsvalue" where
  "get_property obj key =
     (if key = ''__proto__'' then
        (case proto obj of None \<Rightarrow> JsInherited | Some d \<Rightarrow> JsEntry d)
      else
        (case own obj key of
           Some d \<Rightarrow> JsEntry d
         | None \<Rightarrow>
             (case proto obj of
                Some d \<Rightarrow>
                  if key = ''accessToken'' then JsString (TokenDetails.accessToken d)
                  else if key = ''expiresAt'' then JsNumber (expiresAt d)
                  else if key \<in> set Object_prototype_names then JsInherited
                  else JsUndefined
              | None \<Rightarrow>
                  if key \<in> set Object_prototype_names then JsInherited else JsUndefined)))"

text \<open>
  The assignment \<open>obj[key] = details\<close> of an entry: \<open>__proto__\<close> replaces the prototype;
  any other name becomes an own property (the inherited members are writable data
  properties, so the assignment shadows them).
\<close>

definition put_property :: "TokenMap \<Rightarrow> string \<Rightarrow> TokenDetails \<Rightarrow> TokenMap" where
  "put_property obj key details =
     (if key = ''__proto__'' then obj\<lparr>proto := Some details\<rparr>
      else obj\<lparr>own := (own obj)(key \<mapsto> details)\<rparr>)"

text \<open>Truthiness of a value, and the read \<open>value.accessToken\<close>.\<close>

fun js_truthy :: "jsvalue \<Rightarrow> bool" where
  "js_truthy JsUndefined = False"
| "js_truthy (JsEntry d) = True"
| "js_truthy JsInherited = True"
| "js_truthy (JsString str) = (str \<noteq> [])"
| "js_truthy (JsNumber n) = (n \<noteq> 0)"

fun accessToken_of :: "jsvalue \<Rightarrow> string option" where
  "accessToken_of (JsEntry d) = Some (TokenDetails.accessToken d)"
| "accessToken_of v = None"

text \<open>
  \<open>_subscribers\<close> is an object whose property names are numbers: an association list
  in creation order, where assigning to an existing name keeps its place
  (\<open>AList.update\<close>) and \<open>delete\<close> removes it (\<open>AList.delete\<close>). \<open>Object.keys\<close> lists array
  indices (below \<open>2^32 - 1\<close>) in ascending order first, then the other names in
  creation order.
\<close>

definition own_entries :: "(nat \<times> 'f) list \<Rightarrow> (nat \<times> 'f) list" where
  "own_entries al =
     sort_key fst (filter (\<lambda>e. fst e < 4294967295) al)
       @ filter (\<lambda>e. \<not> fst e < 4294967295) al"

definition record_effect :: "('p, 'f) Auth0Web \<Rightarrow> 'f effect list \<Rightarrow> ('p, 'f) Auth0Web" where
  "record_effect s es = s\<lparr>effects := effects s @ es\<rparr>"

section \<open>The methods of \<open>Auth0Web\<close>\<close>

definition new_Auth0Web :: "AuthOptions \<Rightarrow> string \<Rightarrow> ('p, 'f) Auth0Web" where
  "new_Auth0Web properties fragment =
     \<lparr>auth0Client = properties\<lparr>responseType := Some IMPLICTY_RESPONSE_TYPE\<rparr>,
      accessTokens = empty_object,
      currentProperties = properties,
      idToken = None,
      profile = None,
      subscribers = [],
      location_hash = fragment,
      effects = []\<rparr>"

definition getProfile :: "('p, 'f) Auth0Web \<Rightarrow> 'p option" where
  "getProfile s = profile s"

definition getAccessToken :: "('p, 'f) Auth0Web \<Rightarrow> string option \<Rightarrow> string option" where
  "getAccessToken s audience =
     (if \<not> js_truthy (get_property (accessTokens s) (or_default audience)) then None
      else accessToken_of (get_property (accessTokens s) (or_default audience)))"

definition getProperties :: "('p, 'f) Auth0Web \<Rightarrow> AuthOptions" where
  "getProperties s = currentProperties s"

definition signIn :: "('p, 'f) Auth0Web \<Rightarrow> ('p, 'f) Auth0Web" where
  "signIn s = record_effect s [Authorize]"

definition isAuthenticated :: "('p, 'f) Auth0Web \<Rightarrow> string option \<Rightarrow> bool" where
  "isAuthenticated s audience =
     (if js_truthy (get_property (accessTokens s) (or_default audience)) then True else False)"

definition notifySubscribers ::
  "('p, 'f) Auth0Web \<Rightarrow> bool \<Rightarrow> string option \<Rightarrow> ('p, 'f) Auth0Web" where
  "notifySubscribers s authenticated audience =
     record_effect s
       (map (\<lambda>e. Invoke (snd e) authenticated audience) (own_entries (subscribers s)))"

text \<open>
  \<open>_accessTokens\<close> is initialised to \<open>{}\<close> and only ever reassigned to \<open>{}\<close>, so the test
  \<open>if (!this._accessTokens)\<close> at the head of \<open>addAccessToken\<close> never fires.
\<close>

definition addAccessToken ::
  "('p, 'f) Auth0Web \<Rightarrow> string \<Rightarrow> int \<Rightarrow> string option \<Rightarrow> ('p, 'f) Auth0Web" where
  "addAccessToken s token expires audience =
     (let accessTokenDetails = \<lparr>TokenDetails.accessToken = token, expiresAt = expires\<rparr>;
          s1 = (if \<not> js_truthy (get_property (accessTokens s) DEFAULT_KEY)
                then s\<lparr>accessTokens :=
                         put_property (accessTokens s) DEFAULT_KEY accessTokenDetails\<rparr>
                else s)
      in case audience of
           None \<Rightarrow> s1
         | Some a \<Rightarrow>
             if a = [] then s1
             else s1\<lparr>accessTokens := put_property (accessTokens s1) a accessTokenDetails\<rparr>)"

definition clearSession :: "('p, 'f) Auth0Web \<Rightarrow> ('p, 'f) Auth0Web" where
  "clearSession s =
     notifySubscribers (s\<lparr>profile := None, accessTokens := empty_object, idToken := None\<rparr>)
       False None"

definition signOut :: "('p, 'f) Auth0Web \<Rightarrow> string option \<Rightarrow> ('p, 'f) Auth0Web" where
  "signOut s returnTo =
     (let s1 = clearSession s
      in record_effect s1 [Logout returnTo (clientID (currentProperties s1))])"

text \<open>
  \<open>loadProfile\<close> calls \<open>userInfo\<close>; \<open>response\<close> is what the SDK passes to the callback and
  \<open>now\<close> what \<open>Date.now()\<close> returns there. The promise is resolved by \<open>resolve()\<close>, with
  no argument: its value is \<open>undefined\<close>, here \<open>None\<close>.
\<close>

definition loadProfile ::
  "('p, 'f) Auth0Web \<Rightarrow> AuthResult \<Rightarrow> string option \<Rightarrow> nat \<Rightarrow> Auth0Error + 'p
     \<Rightarrow> 'p option promise \<times> ('p, 'f) Auth0Web" where
  "loadProfile s authResult audience now response =
     (let s0 = record_effect s [UserInfoCall (AuthResult.accessToken authResult)]
      in case response of
           Inl err \<Rightarrow> (Rejected err, s0)
         | Inr prof \<Rightarrow>
             (let expires = expiresIn authResult * 1000 + int now;
                  s1 = addAccessToken s0 (AuthResult.accessToken authResult) expires audience;
                  s2 = s1\<lparr>idToken := Some (AuthResult.idToken authResult)\<rparr>;
                  s3 = s2\<lparr>profile := Some prof\<rparr>
              in (Resolved None, notifySubscribers s3 True None)))"

definition handleAuthResult ::
  "('p, 'f) Auth0Web \<Rightarrow> AuthResult \<Rightarrow> string option \<Rightarrow> nat \<Rightarrow> Auth0Error + 'p
     \<Rightarrow> 'p option promise \<times> ('p, 'f) Auth0Web" where
  "handleAuthResult s authResult audience now response =
     loadProfile (s\<lparr>location_hash := []\<rparr>) authResult audience now response"

text \<open>
  \<open>parseHash\<close>: \<open>parsed\<close> is what the SDK's fragment parser passes to the callback,
  \<open>response\<close> what \<open>userInfo\<close> answers if it is asked.
\<close>

definition parseHash ::
  "('p, 'f) Auth0Web \<Rightarrow> Auth0Error + AuthResult \<Rightarrow> nat \<Rightarrow> Auth0Error + 'p
     \<Rightarrow> 'p option promise \<times> ('p, 'f) Auth0Web" where
  "parseHash s parsed now response =
     (let s0 = record_effect s [ParseHashCall]
      in case parsed of
           Inl err \<Rightarrow> (Rejected err, s0)
         | Inr authResult \<Rightarrow>
             (case loadProfile (s0\<lparr>location_hash := []\<rparr>) authResult None now response of
                (Resolved v, s1) \<Rightarrow> (Resolved v, s1)
              | (Rejected err, s1) \<Rightarrow> (Rejected err, s1)))"

text \<open>
  \<open>checkSession\<close>: \<open>checked\<close> is what the SDK's silent check passes to the callback. The
  parameter \<open>scope\<close> defaults to \<open>'openid'\<close>.
\<close>

fun scope_or_default :: "string option \<Rightarrow> string" where
  "scope_or_default None = ''openid''"
| "scope_or_default (Some sc) = sc"

definition checkSession ::
  "('p, 'f) Auth0Web \<Rightarrow> string option \<Rightarrow> string option \<Rightarrow> Auth0Error + AuthResult \<Rightarrow> nat
     \<Rightarrow> Auth0Error + 'p \<Rightarrow> bool promise \<times> ('p, 'f) Auth0Web" where
  "checkSession s audience scope checked now response =
     (let s0 = record_effect s [CheckSessionCall audience (scope_or_default scope)]
      in case checked of
           Inl err \<Rightarrow>
             if error err \<noteq> ''login_required'' then (Rejected err, s0)
             else (Resolved False, s0)
         | Inr authResult \<Rightarrow>
             if isAuthenticated s0 None then
               (let expires = expiresIn authResult * 1000 + int now
                in (Resolved True,
                    addAccessToken s0 (AuthResult.accessToken authResult) expires audience))
             else
               (case handleAuthResult s0 authResult audience now response of
                  (Resolved v, s1) \<Rightarrow> (Resolved True, s1)
                | (Rejected err, s1) \<Rightarrow> (Rejected err, s1)))"

text \<open>
  \<open>subscribe\<close> returns a closure over \<open>subscriberKey\<close>; the model returns the key, and
  \<open>unsubscribe s key\<close> is the closure's body.
\<close>

definition subscribe :: "('p, 'f) Auth0Web \<Rightarrow> 'f \<Rightarrow> nat \<Rightarrow> nat \<times> ('p, 'f) Auth0Web" where
  "subscribe s subscriber now =
     (let subscriberKey = now
      in (subscriberKey, s\<lparr>subscribers := AList.update subscriberKey subscriber (subscribers s)\<rparr>))"

definition unsubscribe :: "('p, 'f) Auth0Web \<Rightarrow> nat \<Rightarrow> ('p, 'f) Auth0Web" where
  "unsubscribe s subscriberKey = s\<lparr>subscribers := AList.delete subscriberKey (subscribers s)\<rparr>"

section \<open>Observations and reachable states\<close>

text \<open>The subscriber invocations among the effects, in order.\<close>

fun notifications :: "'f effect list \<Rightarrow> ('f \<times> bool \<times> string option) list" where
  "notifications [] = []"
| "notifications (Invoke f b a # es) = (f, b, a) # notifications es"
| "notifications (e # es) = notifications es"

text \<open>
  The states an instance can be in: the constructor's, and the state after any public
  method, whatever the SDK answers. A \<open>userInfo\<close> callback may arrive after other methods
  have run, so \<open>loadProfile\<close> is a step of its own.
\<close>

inductive reachable :: "('p, 'f) Auth0Web \<Rightarrow> bool" where
  constructed: "reachable (new_Auth0Web properties fragment)"
| after_signIn: "reachable s \<Longrightarrow> reachable (signIn s)"
| after_signOut: "reachable s \<Longrightarrow> reachable (signOut s returnTo)"
| after_parseHash: "reachable s \<Longrightarrow> reachable (snd (parseHash s parsed now response))"
| after_checkSession:
    "reachable s \<Longrightarrow> reachable (snd (checkSession s audience scope checked now response))"
| after_subscribe: "reachable s \<Longrightarrow> reachable (snd (subscribe s subscriber now))"
| after_unsubscribe: "reachable s \<Longrightarrow> reachable (unsubscribe s subscriberKey)"
| after_loadProfile:
    "reachable s \<Longrightarrow> reachable (snd (loadProfile s authResult audience now response))"

text \<open>The token cache is the empty object or its default slot is occupied.\<close>

definition default_seeded :: "('p, 'f) Auth0Web \<Rightarrow> bool" where
  "default_seeded s =
     (accessTokens s = empty_object \<or> own (accessTokens s) DEFAULT_KEY \<noteq> None)"

section \<open>Scenarios\<close>

definition scenario_properties :: AuthOptions where
  "scenario_properties =
     \<lparr>domain = ''x.example.com'', clientID = ''abc'',
      redirectUri = Some ''https://app/cb'', responseType = None\<rparr>"

definition scenario_result :: AuthResult where
  "scenario_result = \<lparr>AuthResult.accessToken = ''tok1'', idToken = ''id1'', expiresIn = 3600\<rparr>"

definition failure :: Auth0Error where
  "failure = \<lparr>error = ''invalid_token'', errorDescription = []\<rparr>"

text \<open>
  Two subscribers registered one millisecond apart, then a session established by
  \<open>checkSession("urn:api")\<close> whose callbacks run at time 1000.
\<close>

definition two_subscribers :: "(string, string) Auth0Web" where
  "two_subscribers =
     snd (subscribe (snd (subscribe (new_Auth0Web scenario_properties ''#access_token=tok1'')
        ''f'' 1700000000000)) ''g'' 1700000000001)"

definition established :: "(string, string) Auth0Web" where
  "established =
     snd (checkSession two_subscribers (Some ''urn:api'') None (Inr scenario_result) 1700000001000
            (Inr ''alice''))"

text \<open>A later silent check answers with a second token.\<close>

definition refreshed :: AuthResult where
  "refreshed = \<lparr>AuthResult.accessToken = ''tok2'', idToken = ''id2'', expiresIn = 7200\<rparr>"

text \<open>Two subscribers registered within the same millisecond.\<close>

definition same_tick :: "(string, string) Auth0Web" where
  "same_tick =
     snd (subscribe (snd (subscribe (new_Auth0Web scenario_properties []) ''f'' 1700000000000))
        ''g'' 1700000000000)"

text \<open>
  A session established by \<open>checkSession("toString")\<close>: the audience has the name of a
  member of \<open>Object.prototype\<close>.
\<close>

definition named_toString :: "(string, string) Auth0Web" where
  "named_toString =
     snd (checkSession two_subscribers (Some ''toString'') None (Inr scenario_result)
            1700000001000 (Inr ''alice''))"

section \<open>Basic facts\<close>

lemma record_effect_fields [simp]:
  "accessTokens (record_effect s es) = accessTokens s"
  "profile (record_effect s es) = profile s"
  "idToken (record_effect s es) = idToken s"
  "subscribers (record_effect s es) = subscribers s"
  "location_hash (record_effect s es) = location_hash s"
  "currentProperties (record_effect s es) = currentProperties s"
  "auth0Client (record_effect s es) = auth0Client s"
  "effects (record_effect s es) = effects s @ es"
  by (simp_all add: record_effect_def)

lemma notifySubscribers_fields [simp]:
  "accessTokens (notifySubscribers s b a) = accessTokens s"
  "profile (notifySubscribers s b a) = profile s"
  "idToken (notifySubscribers s b a) = idToken s"
  "subscribers (notifySubscribers s b a) = subscribers s"
  "location_hash (notifySubscribers s b a) = location_hash s"
  "currentProperties (notifySubscribers s b a) = currentProperties s"
  "auth0Client (notifySubscribers s b a) = auth0Client s"
  by (simp_all add: notifySubscribers_def)

lemma addAccessToken_fields [simp]:
  "profile (addAccessToken s t e a) = profile s"
  "idToken (addAccessToken s t e a) = idToken s"
  "subscribers (addAccessToken s t e a) = subscribers s"
  "location_hash (addAccessToken s t e a) = location_hash s"
  "currentProperties (addAccessToken s t e a) = currentProperties s"
  "auth0Client (addAccessToken s t e a) = auth0Client s"
  "effects (addAccessToken s t e a) = effects s"
  by (simp_all add: addAccessToken_def Let_def split: option.splits)

lemma notifications_append [simp]:
  "notifications (xs @ ys) = notifications xs @ notifications ys"
  by (induction xs rule: notifications.induct) simp_all

lemma notifications_Invokes [simp]:
  "notifications (map (\<lambda>e. Invoke (snd e) b a) al) = map (\<lambda>e. (snd e, b, a)) al"
  by (induction al) simp_all

lemma mset_own_entries: "mset (own_entries al) = mset al"
  by (simp add: own_entries_def multiset_partition [symmetric] add.commute)

lemma set_own_entries [simp]: "set (own_entries al) = set al"
  by (auto simp: own_entries_def)

lemma effects_notifySubscribers [simp]:
  "effects (notifySubscribers s b a) =
     effects s @ map (\<lambda>e. Invoke (snd e) b a) (own_entries (subscribers s))"
  by (simp add: notifySubscribers_def)

lemma isAuthenticated_record_effect [simp]:
  "isAuthenticated (record_effect s es) a = isAuthenticated s a"
  by (simp add: isAuthenticated_def)

lemma getAccessToken_record_effect [simp]:
  "getAccessToken (record_effect s es) a = getAccessToken s a"
  by (simp add: getAccessToken_def)

subsection \<open>Reading and assigning properties\<close>

lemma get_property_default:
  "get_property obj DEFAULT_KEY =
     (case own obj DEFAULT_KEY of None \<Rightarrow> JsUndefined | Some d \<Rightarrow> JsEntry d)"
  by (simp add: get_property_def DEFAULT_KEY_def Object_prototype_names_def
      split: option.splits)

lemma get_property_put_same [simp]: "get_property (put_property obj key d) key = JsEntry d"
  by (simp add: get_property_def put_property_def)

lemma own_put_property:
  "own (put_property obj key d) = (if key = ''__proto__'' then own obj else (own obj)(key \<mapsto> d))"
  by (simp add: put_property_def)

lemma proto_put_property:
  "proto (put_property obj key d) = (if key = ''__proto__'' then Some d else proto obj)"
  by (simp add: put_property_def)

lemma own_default_put_property:
  "own (put_property obj key d) DEFAULT_KEY =
     (if key = DEFAULT_KEY then Some d else own obj DEFAULT_KEY)"
  by (simp add: put_property_def DEFAULT_KEY_def)

lemma isAuthenticated_default:
  "isAuthenticated s None = (own (accessTokens s) DEFAULT_KEY \<noteq> None)"
  by (simp add: isAuthenticated_def get_property_default split: option.splits)

lemma getAccessToken_default:
  "getAccessToken s None
     = map_option TokenDetails.accessToken (own (accessTokens s) DEFAULT_KEY)"
  by (simp add: getAccessToken_def get_property_default split: option.splits)

lemma getters_of_entry:
  "get_property (accessTokens s) (or_default a) = JsEntry d \<Longrightarrow>
   isAuthenticated s a \<and> getAccessToken s a = Some (TokenDetails.accessToken d)"
  by (simp add: isAuthenticated_def getAccessToken_def)

subsection \<open>What \<open>addAccessToken\<close> stores\<close>

lemma accessTokens_addAccessToken:
  "accessTokens (addAccessToken s t e a) =
     (if truthy a
      then put_property
             (if own (accessTokens s) DEFAULT_KEY = None
              then put_property (accessTokens s) DEFAULT_KEY
                     \<lparr>TokenDetails.accessToken = t, expiresAt = e\<rparr>
              else accessTokens s)
             (or_default a) \<lparr>TokenDetails.accessToken = t, expiresAt = e\<rparr>
      else if own (accessTokens s) DEFAULT_KEY = None
           then put_property (accessTokens s) DEFAULT_KEY
                  \<lparr>TokenDetails.accessToken = t, expiresAt = e\<rparr>
           else accessTokens s)"
  by (cases a)
     (auto simp: addAccessToken_def Let_def get_property_default split: option.splits)

lemma accessTokens_addAccessToken_frame [simp]:
  "accessTokens (addAccessToken (record_effect s es) t e a)
     = accessTokens (addAccessToken s t e a)"
  "accessTokens (addAccessToken (s\<lparr>location_hash := h\<rparr>) t e a)
     = accessTokens (addAccessToken s t e a)"
  by (simp_all add: accessTokens_addAccessToken)

lemma addAccessToken_default_present:
  "own (accessTokens s) DEFAULT_KEY \<noteq> None \<Longrightarrow>
   accessTokens (addAccessToken s t e a) =
     (case a of
        None \<Rightarrow> accessTokens s
      | Some x \<Rightarrow>
          if x = [] then accessTokens s
          else put_property (accessTokens s) x \<lparr>TokenDetails.accessToken = t, expiresAt = e\<rparr>)"
  by (cases a) (auto simp: accessTokens_addAccessToken)

lemma default_after_addAccessToken:
  "own (accessTokens (addAccessToken s t e a)) DEFAULT_KEY \<noteq> None"
  by (cases a) (auto simp: accessTokens_addAccessToken put_property_def DEFAULT_KEY_def)

lemma slot_after_addAccessToken:
  "truthy a \<Longrightarrow>
   get_property (accessTokens (addAccessToken s t e a)) (or_default a)
     = JsEntry \<lparr>TokenDetails.accessToken = t, expiresAt = e\<rparr>"
  by (simp add: accessTokens_addAccessToken)

subsection \<open>\<open>loadProfile\<close>, \<open>parseHash\<close> and \<open>checkSession\<close>, case by case\<close>

lemma loadProfile_Inl [simp]:
  "loadProfile s r a now (Inl err) =
     (Rejected err, record_effect s [UserInfoCall (AuthResult.accessToken r)])"
  by (simp add: loadProfile_def)

lemma loadProfile_Inr:
  "loadProfile s r a now (Inr p) =
     (Resolved None,
      notifySubscribers
        ((addAccessToken (record_effect s [UserInfoCall (AuthResult.accessToken r)])
            (AuthResult.accessToken r) (expiresIn r * 1000 + int now) a)
         \<lparr>idToken := Some (AuthResult.idToken r), profile := Some p\<rparr>) True None)"
  by (simp add: loadProfile_def Let_def)

lemma loadProfile_Inr_fields:
  "fst (loadProfile s r a now (Inr p)) = Resolved None"
  "accessTokens (snd (loadProfile s r a now (Inr p)))
     = accessTokens (addAccessToken s (AuthResult.accessToken r) (expiresIn r * 1000 + int now) a)"
  "idToken (snd (loadProfile s r a now (Inr p))) = Some (AuthResult.idToken r)"
  "profile (snd (loadProfile s r a now (Inr p))) = Some p"
  "subscribers (snd (loadProfile s r a now (Inr p))) = subscribers s"
  "location_hash (snd (loadProfile s r a now (Inr p))) = location_hash s"
  "effects (snd (loadProfile s r a now (Inr p)))
     = effects s @ UserInfoCall (AuthResult.accessToken r)
         # map (\<lambda>e. Invoke (snd e) True None) (own_entries (subscribers s))"
  by (simp_all add: loadProfile_Inr)

lemma notifications_loadProfile:
  "notifications (effects (snd (loadProfile s r a now response)))
     = notifications (effects s)
         @ (case response of
              Inl err \<Rightarrow> []
            | Inr p \<Rightarrow> map (\<lambda>e. (snd e, True, None)) (own_entries (subscribers s)))"
  by (cases response) (simp_all add: loadProfile_Inr_fields)

lemma accessTokens_loadProfile:
  "accessTokens (snd (loadProfile s r a now response)) =
     (case response of
        Inl err \<Rightarrow> accessTokens s
      | Inr p \<Rightarrow> accessTokens (addAccessToken s (AuthResult.accessToken r)
                    (expiresIn r * 1000 + int now) a))"
  by (cases response) (simp_all add: loadProfile_Inr_fields)

lemma handleAuthResult_Inl [simp]:
  "handleAuthResult s r a now (Inl err) =
     (Rejected err, record_effect (s\<lparr>location_hash := []\<rparr>) [UserInfoCall (AuthResult.accessToken r)])"
  by (simp add: handleAuthResult_def)

lemma parseHash_Inl [simp]:
  "parseHash s (Inl err) now response = (Rejected err, record_effect s [ParseHashCall])"
  by (simp add: parseHash_def)

lemma parseHash_Inr:
  "parseHash s (Inr r) now response =
     loadProfile (record_effect s [ParseHashCall]\<lparr>location_hash := []\<rparr>) r None now response"
  by (cases response) (simp_all add: parseHash_def Let_def loadProfile_Inr)

lemma parseHash_outcomes:
  "parseHash s (Inl err) now response = (Rejected err, record_effect s [ParseHashCall])"
  "fst (parseHash s (Inr r) now (Inl err)) = Rejected err"
  "fst (parseHash s (Inr r) now (Inr p)) = Resolved None"
  "location_hash (snd (parseHash s (Inr r) now response)) = []"
  "profile (snd (parseHash s (Inr r) now (Inr p))) = Some p"
  by (cases response; simp add: parseHash_Inr loadProfile_Inr_fields)+

lemma parseHash_resolves:
  assumes "fst (parseHash s parsed now response) = Resolved v"
  obtains r p where "parsed = Inr r" and "response = Inr p"
    and "accessTokens (snd (parseHash s parsed now response))
          = accessTokens (addAccessToken s (AuthResult.accessToken r)
              (expiresIn r * 1000 + int now) None)"
proof (cases parsed)
  case (Inl err)
  with assms show ?thesis by simp
next
  case (Inr r)
  with assms that [of r] show ?thesis
    by (cases response)
       (simp_all add: parseHash_Inr loadProfile_Inr_fields)
qed

lemma accessTokens_parseHash:
  "accessTokens (snd (parseHash s parsed now response)) =
     (case parsed of
        Inl err \<Rightarrow> accessTokens s
      | Inr r \<Rightarrow>
          (case response of
             Inl err \<Rightarrow> accessTokens s
           | Inr p \<Rightarrow> accessTokens (addAccessToken s (AuthResult.accessToken r)
                         (expiresIn r * 1000 + int now) None)))"
  by (cases parsed; cases response) (simp_all add: parseHash_Inr loadProfile_Inr_fields)

lemma checkSession_Inl:
  "checkSession s a scope (Inl err) now response =
     (if error err \<noteq> ''login_required'' then Rejected err else Resolved False,
      record_effect s [CheckSessionCall a (scope_or_default scope)])"
  by (simp add: checkSession_def Let_def)

lemma checkSession_authenticated:
  "isAuthenticated s None \<Longrightarrow>
   checkSession s audience scope (Inr r) now response =
     (Resolved True,
      addAccessToken (record_effect s [CheckSessionCall audience (scope_or_default scope)])
        (AuthResult.accessToken r) (expiresIn r * 1000 + int now) audience)"
  by (simp add: checkSession_def Let_def)

lemma checkSession_unauthenticated:
  "\<not> isAuthenticated s None \<Longrightarrow>
   checkSession s audience scope (Inr r) now response =
     (case response of
        Inl err \<Rightarrow> (Rejected err,
          record_effect (record_effect s [CheckSessionCall audience (scope_or_default scope)]
             \<lparr>location_hash := []\<rparr>) [UserInfoCall (AuthResult.accessToken r)])
      | Inr p \<Rightarrow> (Resolved True,
          snd (loadProfile
            (record_effect s [CheckSessionCall audience (scope_or_default scope)]
               \<lparr>location_hash := []\<rparr>) r audience now (Inr p))))"
  by (simp add: checkSession_def Let_def handleAuthResult_def loadProfile_Inr split: sum.splits)

lemma checkSession_resolves_true:
  assumes "fst (checkSession s a scope checked now response) = Resolved True"
  obtains r where "checked = Inr r"
    and "accessTokens (snd (checkSession s a scope checked now response))
          = accessTokens (addAccessToken s (AuthResult.accessToken r)
              (expiresIn r * 1000 + int now) a)"
proof (cases checked)
  case (Inl err)
  with assms show ?thesis by (simp add: checkSession_Inl split: if_splits)
next
  case (Inr r)
  show ?thesis
  proof (cases "isAuthenticated s None")
    case True
    then show ?thesis
      using Inr that [of r]
      by (simp add: checkSession_authenticated)
  next
    case False
    then show ?thesis
      using Inr that [of r] assms
      by (cases response)
         (simp_all add: checkSession_unauthenticated loadProfile_Inr_fields
           )
  qed
qed

lemma accessTokens_checkSession:
  "accessTokens (snd (checkSession s a scope checked now response)) =
     (case checked of
        Inl err \<Rightarrow> accessTokens s
      | Inr r \<Rightarrow>
          if isAuthenticated s None
          then accessTokens (addAccessToken s (AuthResult.accessToken r)
                 (expiresIn r * 1000 + int now) a)
          else (case response of
                  Inl err \<Rightarrow> accessTokens s
                | Inr p \<Rightarrow> accessTokens (addAccessToken s (AuthResult.accessToken r)
                              (expiresIn r * 1000 + int now) a)))"
proof (cases checked)
  case (Inl err)
  then show ?thesis by (simp add: checkSession_Inl)
next
  case (Inr r)
  then show ?thesis
    by (cases "isAuthenticated s None"; cases response)
       (simp_all add: checkSession_authenticated checkSession_unauthenticated
          loadProfile_Inr_fields)
qed

subsection \<open>The scenarios, evaluated\<close>

lemma subscribers_two [simp]:
  "subscribers two_subscribers = [(1700000000000, ''f''), (1700000000001, ''g'')]"
  by (simp add: two_subscribers_def subscribe_def new_Auth0Web_def)

lemma accessTokens_two [simp]: "accessTokens two_subscribers = empty_object"
  by (simp add: two_subscribers_def subscribe_def new_Auth0Web_def)

lemma own_entries_two [simp]:
  "own_entries [(1700000000000, ''f''), (1700000000001, ''g'')]
     = [(1700000000000, ''f''), (1700000000001, ''g'')]"
  by (simp add: own_entries_def)

lemma established_eval:
  "accessTokens established =
     \<lparr>own = [''default'' \<mapsto> \<lparr>TokenDetails.accessToken = ''tok1'', expiresAt = 1700003601000\<rparr>,
             ''urn:api'' \<mapsto> \<lparr>TokenDetails.accessToken = ''tok1'', expiresAt = 1700003601000\<rparr>],
      proto = None\<rparr>"
  "profile established = Some ''alice''"
  "idToken established = Some ''id1''"
  "subscribers established = [(1700000000000, ''f''), (1700000000001, ''g'')]"
  "location_hash established = []"
  "currentProperties established = scenario_properties"
  "effects established =
     [CheckSessionCall (Some ''urn:api'') ''openid'', UserInfoCall ''tok1'',
      Invoke ''f'' True None, Invoke ''g'' True None]"
  by (simp_all add: established_def checkSession_def Let_def isAuthenticated_def
      handleAuthResult_def loadProfile_Inr addAccessToken_def DEFAULT_KEY_def scenario_result_def
      two_subscribers_def subscribe_def new_Auth0Web_def record_effect_def
      get_property_def put_property_def empty_object_def Object_prototype_names_def)

section \<open>The getters\<close>

text \<open>
  What the getters compute, for every state and audience: \<open>getAccessToken\<close> returns the
  token string when the read of the slot \<open>audience || 'default'\<close> returns an entry and
  an absent value otherwise; \<open>isAuthenticated\<close> is the truthiness of that read. For the
  default slot, and for every audience whose name is not \<open>__proto__\<close>, not a member of
  \<open>Object.prototype\<close> and not a field of an entry that has become the prototype, the
  read is the own property: there the getters test presence only and never read
  \<open>expiresAt\<close>.
\<close>

lemma getters_presence_only:
  "getAccessToken s audience
     = (case get_property (accessTokens s) (or_default audience) of
          JsEntry d \<Rightarrow> Some (TokenDetails.accessToken d)
        | _ \<Rightarrow> None)
   \<and> isAuthenticated s audience = js_truthy (get_property (accessTokens s) (or_default audience))
   \<and> getAccessToken s (Some []) = getAccessToken s None
   \<and> isAuthenticated s (Some []) = isAuthenticated s None
   \<and> getAccessToken s None
       = map_option TokenDetails.accessToken (own (accessTokens s) ''default'')
   \<and> isAuthenticated s None = (own (accessTokens s) ''default'' \<noteq> None)
   \<and> (a \<noteq> [] \<and> a \<noteq> ''__proto__'' \<and> a \<notin> set Object_prototype_names
        \<and> (proto (accessTokens s) = None \<or> (a \<noteq> ''accessToken'' \<and> a \<noteq> ''expiresAt'')) \<longrightarrow>
        getAccessToken s (Some a)
          = map_option TokenDetails.accessToken (own (accessTokens s) a)
        \<and> isAuthenticated s (Some a) = (own (accessTokens s) a \<noteq> None))"
proof -
  have 1: "getAccessToken s audience
     = (case get_property (accessTokens s) (or_default audience) of
          JsEntry d \<Rightarrow> Some (TokenDetails.accessToken d)
        | _ \<Rightarrow> None)"
    by (cases "get_property (accessTokens s) (or_default audience)")
       (simp_all add: getAccessToken_def)
  have 2: "isAuthenticated s audience
      = js_truthy (get_property (accessTokens s) (or_default audience))"
    by (simp add: isAuthenticated_def)
  have 3: "getAccessToken s (Some []) = getAccessToken s None"
    "isAuthenticated s (Some []) = isAuthenticated s None"
    by (simp_all add: getAccessToken_def isAuthenticated_def)
  have 4: "getAccessToken s None
       = map_option TokenDetails.accessToken (own (accessTokens s) ''default'')"
    "isAuthenticated s None = (own (accessTokens s) ''default'' \<noteq> None)"
    using getAccessToken_default [of s] isAuthenticated_default [of s]
    by (simp_all add: DEFAULT_KEY_def)
  have 5: "getAccessToken s (Some a)
          = map_option TokenDetails.accessToken (own (accessTokens s) a)
        \<and> isAuthenticated s (Some a) = (own (accessTokens s) a \<noteq> None)"
    if "a \<noteq> [] \<and> a \<noteq> ''__proto__'' \<and> a \<notin> set Object_prototype_names
        \<and> (proto (accessTokens s) = None \<or> (a \<noteq> ''accessToken'' \<and> a \<noteq> ''expiresAt''))"
    using that
    by (cases "own (accessTokens s) a"; cases "proto (accessTokens s)")
       (simp_all add: getAccessToken_def isAuthenticated_def get_property_def)
  show ?thesis
    using 5 by (intro conjI impI) (simp_all only: 1 [symmetric] 2 [symmetric] 3 4 simp_thms)
qed

text \<open>
  Claim C9. \<open>isAuthenticated\<close> is not true exactly when an entry exists: the cache is a
  plain object, so a read of an inherited name is truthy without any entry. On a fresh
  instance, whose cache is empty, \<open>isAuthenticated("toString")\<close> is true, while
  \<open>getAccessToken("toString")\<close> is absent and \<open>isAuthenticated("urn:api")\<close> is false.
\<close>

theorem isAuthenticated_inherited_name:
  "accessTokens (new_Auth0Web scenario_properties [] :: (string, string) Auth0Web)
     = empty_object
   \<and> own empty_object ''toString'' = None
   \<and> isAuthenticated (new_Auth0Web scenario_properties [] :: (string, string) Auth0Web)
        (Some ''toString'')
   \<and> getAccessToken (new_Auth0Web scenario_properties [] :: (string, string) Auth0Web)
        (Some ''toString'') = None
   \<and> \<not> isAuthenticated (new_Auth0Web scenario_properties [] :: (string, string) Auth0Web)
        (Some ''urn:api'')"
  by (simp add: new_Auth0Web_def isAuthenticated_def getAccessToken_def get_property_def
      empty_object_def Object_prototype_names_def)

section \<open>\<open>checkSession\<close>\<close>

text \<open>
  Claim C1. When the silent check reports an error whose \<open>error\<close> field is
  \<open>'login_required'\<close>, the promise of \<open>checkSession\<close> resolves with \<open>false\<close> and
  \<open>isAuthenticated\<close> answers as before, for every audience; for any other error the
  promise rejects with that error object. In both cases the instance only gains the
  record of the SDK call.
\<close>

theorem checkSession_provider_error:
  "(error err = ''login_required'' \<longrightarrow>
      fst (checkSession s audience scope (Inl err) now response) = Resolved False
      \<and> (\<forall>a. isAuthenticated (snd (checkSession s audience scope (Inl err) now response)) a
               = isAuthenticated s a))
   \<and> (error err \<noteq> ''login_required'' \<longrightarrow>
      fst (checkSession s audience scope (Inl err) now response) = Rejected err)
   \<and> snd (checkSession s audience scope (Inl err) now response)
       = record_effect s [CheckSessionCall audience (scope_or_default scope)]"
  by (simp add: checkSession_def Let_def)

theorem checkSession_provider_error_witness:
  "fst (checkSession (new_Auth0Web scenario_properties [] :: (unit, unit) Auth0Web) None None
          (Inl \<lparr>error = ''login_required'', errorDescription = []\<rparr>) 0 (Inl \<lparr>error = [], errorDescription = []\<rparr>))
     = Resolved False
   \<and> \<not> isAuthenticated (snd (checkSession (new_Auth0Web scenario_properties [] :: (unit, unit) Auth0Web) None None
          (Inl \<lparr>error = ''login_required'', errorDescription = []\<rparr>) 0 (Inl \<lparr>error = [], errorDescription = []\<rparr>))) None
   \<and> fst (checkSession (new_Auth0Web scenario_properties [] :: (unit, unit) Auth0Web) None None
          (Inl \<lparr>error = ''invalid_token'', errorDescription = []\<rparr>) 0 (Inl \<lparr>error = [], errorDescription = []\<rparr>))
     = Rejected \<lparr>error = ''invalid_token'', errorDescription = []\<rparr>"
  using checkSession_provider_error
    [of "\<lparr>error = ''login_required'', errorDescription = []\<rparr>"
        "new_Auth0Web scenario_properties [] :: (unit, unit) Auth0Web" None None 0
        "Inl \<lparr>error = [], errorDescription = []\<rparr>"]
    checkSession_provider_error
    [of "\<lparr>error = ''invalid_token'', errorDescription = []\<rparr>"
        "new_Auth0Web scenario_properties [] :: (unit, unit) Auth0Web" None None 0
        "Inl \<lparr>error = [], errorDescription = []\<rparr>"]
  by (simp add: isAuthenticated_default new_Auth0Web_def empty_object_def)

text \<open>
  Claim C3, as amended. When the silent check succeeds while the default slot is
  occupied, \<open>checkSession\<close> resolves \<open>true\<close> without calling \<open>userInfo\<close> (the only effect
  is the \<open>checkSession\<close> call, and the answer \<open>userInfo\<close> would give is not read), and
  \<open>getProfile\<close> is unchanged. If a non-empty audience is given, the cache is the one
  before with the entry \<open>(accessToken, now + expiresIn * 1000)\<close> assigned to that
  audience's name, a read of that name returns the entry, and \<open>getAccessToken\<close> of the
  audience is the new token. If no audience or an empty one is given, the cache is
  unchanged.
\<close>

theorem checkSession_short_circuit:
  assumes "isAuthenticated s None"
  shows "fst (checkSession s audience scope (Inr r) now response) = Resolved True
    \<and> (\<forall>a. audience = Some a \<and> a \<noteq> [] \<longrightarrow>
          accessTokens (snd (checkSession s audience scope (Inr r) now response))
            = put_property (accessTokens s) a
                \<lparr>TokenDetails.accessToken = AuthResult.accessToken r,
                 expiresAt = int now + expiresIn r * 1000\<rparr>
          \<and> get_property (accessTokens (snd (checkSession s audience scope (Inr r) now response))) a
            = JsEntry \<lparr>TokenDetails.accessToken = AuthResult.accessToken r,
                       expiresAt = int now + expiresIn r * 1000\<rparr>
          \<and> getAccessToken (snd (checkSession s audience scope (Inr r) now response)) audience
            = Some (AuthResult.accessToken r))
    \<and> (\<not> truthy audience \<longrightarrow>
          accessTokens (snd (checkSession s audience scope (Inr r) now response)) = accessTokens s)
    \<and> getProfile (snd (checkSession s audience scope (Inr r) now response)) = getProfile s
    \<and> effects (snd (checkSession s audience scope (Inr r) now response))
        = effects s @ [CheckSessionCall audience (scope_or_default scope)]"
proof -
  let ?s0 = "record_effect s [CheckSessionCall audience (scope_or_default scope)]"
  let ?e = "int now + expiresIn r * 1000"
  have run: "checkSession s audience scope (Inr r) now response
      = (Resolved True, addAccessToken ?s0 (AuthResult.accessToken r) ?e audience)"
    by (simp add: checkSession_authenticated [OF assms] add.commute)
  from assms have d: "own (accessTokens s) DEFAULT_KEY \<noteq> None"
    by (simp add: isAuthenticated_default)
  show ?thesis
    unfolding run
    by (auto simp: addAccessToken_default_present [OF d] getProfile_def getAccessToken_def
        split: option.splits)
qed

theorem checkSession_short_circuit_witness:
  "isAuthenticated established None
   \<and> fst (checkSession established (Some ''urn:other'') None
        (Inr \<lparr>AuthResult.accessToken = ''tok2'', idToken = ''id2'', expiresIn = 7200\<rparr>) 1700000005000
        (Inl failure)) = Resolved True
   \<and> getAccessToken (snd (checkSession established (Some ''urn:other'') None
        (Inr \<lparr>AuthResult.accessToken = ''tok2'', idToken = ''id2'', expiresIn = 7200\<rparr>) 1700000005000
        (Inl failure))) (Some ''urn:other'') = Some ''tok2''
   \<and> get_property (accessTokens (snd (checkSession established (Some ''urn:other'') None
        (Inr \<lparr>AuthResult.accessToken = ''tok2'', idToken = ''id2'', expiresIn = 7200\<rparr>) 1700000005000
        (Inl failure)))) ''urn:other''
      = JsEntry \<lparr>TokenDetails.accessToken = ''tok2'', expiresAt = 1700007205000\<rparr>
   \<and> getProfile (snd (checkSession established (Some ''urn:other'') None
        (Inr \<lparr>AuthResult.accessToken = ''tok2'', idToken = ''id2'', expiresIn = 7200\<rparr>) 1700000005000
        (Inl failure))) = Some ''alice''"
proof -
  have h: "isAuthenticated established None"
    by (simp add: isAuthenticated_default established_eval DEFAULT_KEY_def)
  show ?thesis
    using h checkSession_short_circuit [OF h, of "Some ''urn:other''" None
        "\<lparr>AuthResult.accessToken = ''tok2'', idToken = ''id2'', expiresIn = 7200\<rparr>" 1700000005000
        "Inl failure"]
    by (simp add: getProfile_def established_eval)
qed

text \<open>
  Claim C3 as stated says the token is cached on every such invocation. With no
  audience it is not: the session of the scenario answers \<open>checkSession()\<close> with \<open>true\<close>,
  the cache is the one before the call, and \<open>getAccessToken()\<close> is still the first
  token, not the one the check returned.
\<close>

theorem checkSession_without_audience_caches_nothing:
  "isAuthenticated established None
   \<and> fst (checkSession established None None (Inr refreshed) 1700000005000 (Inr ''bob'')) = Resolved True
   \<and> accessTokens (snd (checkSession established None None (Inr refreshed) 1700000005000 (Inr ''bob'')))
       = accessTokens established
   \<and> getAccessToken (snd (checkSession established None None (Inr refreshed) 1700000005000 (Inr ''bob'')))
        None = Some ''tok1''
   \<and> AuthResult.accessToken refreshed = ''tok2''"
proof -
  have a: "isAuthenticated established None"
    by (simp add: isAuthenticated_default established_eval DEFAULT_KEY_def)
  have d: "own (accessTokens established) DEFAULT_KEY \<noteq> None"
    by (simp add: established_eval DEFAULT_KEY_def)
  show ?thesis
    by (simp add: a checkSession_authenticated [OF a] addAccessToken_default_present [OF d]
        getAccessToken_default established_eval refreshed_def DEFAULT_KEY_def)
qed

section \<open>Who is notified\<close>

text \<open>
  Claim C10. Subscribers are invoked by a successful profile load, with
  \<open>authenticated = true\<close>, and by \<open>clearSession\<close>, with \<open>authenticated = false\<close>, and by
  nothing else: \<open>signIn\<close>, \<open>subscribe\<close> and the closure it returns invoke none, and
  \<open>parseHash\<close> and \<open>checkSession\<close> invoke them only where they load the profile and
  \<open>userInfo\<close> succeeds. On the path of \<open>checkSession\<close> taken when the default slot is
  occupied, no subscriber is invoked and the profile and the identity token are
  unchanged, while a given audience's slot receives the new entry.
\<close>

theorem notifications_only_on_load_and_clear:
  "notifications (effects (signIn s)) = notifications (effects s)
   \<and> notifications (effects (snd (subscribe s f now))) = notifications (effects s)
   \<and> notifications (effects (unsubscribe s k)) = notifications (effects s)
   \<and> notifications (effects (clearSession s))
       = notifications (effects s) @ map (\<lambda>e. (snd e, False, None)) (own_entries (subscribers s))
   \<and> notifications (effects (signOut s returnTo))
       = notifications (effects s) @ map (\<lambda>e. (snd e, False, None)) (own_entries (subscribers s))
   \<and> notifications (effects (snd (loadProfile s r a now response)))
       = notifications (effects s)
           @ (case response of
                Inl err \<Rightarrow> []
              | Inr p \<Rightarrow> map (\<lambda>e. (snd e, True, None)) (own_entries (subscribers s)))
   \<and> notifications (effects (snd (parseHash s parsed now response)))
       = notifications (effects s)
           @ (case parsed of
                Inl err \<Rightarrow> []
              | Inr r \<Rightarrow>
                  (case response of
                     Inl err \<Rightarrow> []
                   | Inr p \<Rightarrow> map (\<lambda>e. (snd e, True, None)) (own_entries (subscribers s))))
   \<and> notifications (effects (snd (checkSession s a scope checked now response)))
       = notifications (effects s)
           @ (case checked of
                Inl err \<Rightarrow> []
              | Inr r \<Rightarrow>
                  if isAuthenticated s None then []
                  else (case response of
                          Inl err \<Rightarrow> []
                        | Inr p \<Rightarrow> map (\<lambda>e. (snd e, True, None)) (own_entries (subscribers s))))
   \<and> (isAuthenticated s None \<longrightarrow>
        notifications (effects (snd (checkSession s a scope (Inr r) now response)))
          = notifications (effects s)
        \<and> profile (snd (checkSession s a scope (Inr r) now response)) = profile s
        \<and> idToken (snd (checkSession s a scope (Inr r) now response)) = idToken s
        \<and> (\<forall>x. a = Some x \<and> x \<noteq> [] \<longrightarrow>
              get_property (accessTokens (snd (checkSession s a scope (Inr r) now response))) x
                = JsEntry \<lparr>TokenDetails.accessToken = AuthResult.accessToken r,
                         expiresAt = int now + expiresIn r * 1000\<rparr>))"
proof -
  have P: "notifications (effects (snd (parseHash s parsed now response)))
       = notifications (effects s)
           @ (case parsed of
                Inl err \<Rightarrow> []
              | Inr r \<Rightarrow>
                  (case response of
                     Inl err \<Rightarrow> []
                   | Inr p \<Rightarrow> map (\<lambda>e. (snd e, True, None)) (own_entries (subscribers s))))"
    by (cases parsed; cases response) (simp_all add: parseHash_Inr loadProfile_Inr_fields)
  have C: "notifications (effects (snd (checkSession s a scope checked now response)))
       = notifications (effects s)
           @ (case checked of
                Inl err \<Rightarrow> []
              | Inr r \<Rightarrow>
                  if isAuthenticated s None then []
                  else (case response of
                          Inl err \<Rightarrow> []
                        | Inr p \<Rightarrow> map (\<lambda>e. (snd e, True, None)) (own_entries (subscribers s))))"
  proof (cases checked)
    case (Inl err)
    then show ?thesis by (simp add: checkSession_Inl)
  next
    case (Inr r')
    then show ?thesis
      by (cases "isAuthenticated s None"; cases response)
         (simp_all add: checkSession_authenticated checkSession_unauthenticated
            loadProfile_Inr_fields)
  qed
  have S: "notifications (effects (snd (checkSession s a scope (Inr r) now response)))
          = notifications (effects s)
        \<and> profile (snd (checkSession s a scope (Inr r) now response)) = profile s
        \<and> idToken (snd (checkSession s a scope (Inr r) now response)) = idToken s
        \<and> (\<forall>x. a = Some x \<and> x \<noteq> [] \<longrightarrow>
              get_property (accessTokens (snd (checkSession s a scope (Inr r) now response))) x
                = JsEntry \<lparr>TokenDetails.accessToken = AuthResult.accessToken r,
                         expiresAt = int now + expiresIn r * 1000\<rparr>)"
    if "isAuthenticated s None"
    using that
    using slot_after_addAccessToken [of a s "AuthResult.accessToken r" "int now + expiresIn r * 1000"]
    by (auto simp: checkSession_authenticated add.commute)
  have R: "notifications (effects (signIn s)) = notifications (effects s)
   \<and> notifications (effects (snd (subscribe s f now))) = notifications (effects s)
   \<and> notifications (effects (unsubscribe s k)) = notifications (effects s)
   \<and> notifications (effects (clearSession s))
       = notifications (effects s) @ map (\<lambda>e. (snd e, False, None)) (own_entries (subscribers s))
   \<and> notifications (effects (signOut s returnTo))
       = notifications (effects s) @ map (\<lambda>e. (snd e, False, None)) (own_entries (subscribers s))"
    by (simp add: signIn_def subscribe_def unsubscribe_def clearSession_def signOut_def Let_def)
  from P C S R notifications_loadProfile [of s r a now response] show ?thesis
    by blast
qed

theorem notifications_only_on_load_and_clear_witness:
  "isAuthenticated established None
   \<and> notifications (effects (snd (checkSession established (Some ''urn:other'') None
        (Inr refreshed) 1700000005000 (Inr ''bob'')))) = [(''f'', True, None), (''g'', True, None)]
   \<and> notifications (effects established) = [(''f'', True, None), (''g'', True, None)]
   \<and> profile (snd (checkSession established (Some ''urn:other'') None
        (Inr refreshed) 1700000005000 (Inr ''bob''))) = Some ''alice''
   \<and> idToken (snd (checkSession established (Some ''urn:other'') None
        (Inr refreshed) 1700000005000 (Inr ''bob''))) = Some ''id1''
   \<and> get_property (accessTokens (snd (checkSession established (Some ''urn:other'') None
        (Inr refreshed) 1700000005000 (Inr ''bob'')))) ''urn:other''
       = JsEntry \<lparr>TokenDetails.accessToken = ''tok2'', expiresAt = 1700007205000\<rparr>"
proof -
  have h: "isAuthenticated established None"
    by (simp add: isAuthenticated_default established_eval DEFAULT_KEY_def)
  show ?thesis
    using h notifications_only_on_load_and_clear [where s = established and f = "''f''"
        and now = 1700000005000 and k = 0 and returnTo = None and r = refreshed
        and a = "Some ''urn:other''" and response = "Inr ''bob''" and parsed = "Inr refreshed"
        and scope = None and checked = "Inr refreshed"]
    by (simp add: established_eval refreshed_def)
qed

section \<open>Successful authentication\<close>

lemma loadProfile_succeeds:
  fixes s :: "('p, 'f) Auth0Web"
    and audience :: "string option" and r :: AuthResult and now :: nat and p :: 'p
  defines "entry \<equiv> \<lparr>TokenDetails.accessToken = AuthResult.accessToken r,
                    expiresAt = int now + expiresIn r * 1000\<rparr>"
    and "l \<equiv> snd (loadProfile s r audience now (Inr p))"
  shows "accessTokens l =
       (case audience of
          None \<Rightarrow>
            if isAuthenticated s None then accessTokens s
            else put_property (accessTokens s) DEFAULT_KEY entry
        | Some a \<Rightarrow>
            if a = [] then
              if isAuthenticated s None then accessTokens s
              else put_property (accessTokens s) DEFAULT_KEY entry
            else
              put_property
                (if isAuthenticated s None then accessTokens s
                 else put_property (accessTokens s) DEFAULT_KEY entry) a entry)"
    and "isAuthenticated l None"
    and "truthy audience \<Longrightarrow> get_property (accessTokens l) (or_default audience) = JsEntry entry"
    and "\<not> isAuthenticated s None \<Longrightarrow> get_property (accessTokens l) DEFAULT_KEY = JsEntry entry"
    and "isAuthenticated s None \<Longrightarrow> audience \<noteq> Some DEFAULT_KEY \<Longrightarrow>
           get_property (accessTokens l) DEFAULT_KEY = get_property (accessTokens s) DEFAULT_KEY"
proof -
  have t: "accessTokens l
      = accessTokens (addAccessToken s (AuthResult.accessToken r)
          (int now + expiresIn r * 1000) audience)"
    by (simp add: l_def loadProfile_Inr_fields add.commute)
  show "accessTokens l =
       (case audience of
          None \<Rightarrow>
            if isAuthenticated s None then accessTokens s
            else put_property (accessTokens s) DEFAULT_KEY entry
        | Some a \<Rightarrow>
            if a = [] then
              if isAuthenticated s None then accessTokens s
              else put_property (accessTokens s) DEFAULT_KEY entry
            else
              put_property
                (if isAuthenticated s None then accessTokens s
                 else put_property (accessTokens s) DEFAULT_KEY entry) a entry)"
    unfolding t entry_def
    by (cases audience) (auto simp: accessTokens_addAccessToken isAuthenticated_default)
  show "isAuthenticated l None"
    unfolding t isAuthenticated_default by (rule default_after_addAccessToken)
  show "get_property (accessTokens l) (or_default audience) = JsEntry entry" if "truthy audience"
    unfolding t entry_def using that by (rule slot_after_addAccessToken)
  show "get_property (accessTokens l) DEFAULT_KEY = JsEntry entry" if "\<not> isAuthenticated s None"
    unfolding t entry_def using that
    by (cases audience)
       (auto simp: accessTokens_addAccessToken isAuthenticated_default get_property_default
          own_default_put_property)
  show "get_property (accessTokens l) DEFAULT_KEY = get_property (accessTokens s) DEFAULT_KEY"
    if "isAuthenticated s None" and "audience \<noteq> Some DEFAULT_KEY"
    unfolding t using that
    by (cases audience)
       (auto simp: accessTokens_addAccessToken isAuthenticated_default get_property_default
          own_default_put_property)
qed

lemma getAccessToken_after_addAccessToken:
  "getAccessToken (s'\<lparr>accessTokens := accessTokens (addAccessToken s t e a)\<rparr>) a
     = (if truthy a \<or> \<not> isAuthenticated s None then Some t else getAccessToken s None)"
proof (cases "truthy a")
  case True
  then show ?thesis
    using slot_after_addAccessToken [of a s t e]
    by (simp add: getAccessToken_def)
next
  case False
  then have k: "or_default a = DEFAULT_KEY"
    by (cases a) auto
  from False show ?thesis
    by (simp add: getAccessToken_def k accessTokens_addAccessToken isAuthenticated_default
        get_property_default own_default_put_property split: option.splits)
qed

lemma getters_only_read_accessTokens:
  "accessTokens s' = accessTokens s \<Longrightarrow> getAccessToken s' a = getAccessToken s a"
  "accessTokens s' = accessTokens s \<Longrightarrow> isAuthenticated s' a = isAuthenticated s a"
  by (simp_all add: getAccessToken_def isAuthenticated_def)

lemma isAuthenticated_after_addAccessToken:
  "accessTokens s' = accessTokens (addAccessToken s t e a) \<Longrightarrow> isAuthenticated s' a"
proof (cases "truthy a")
  case True
  assume "accessTokens s' = accessTokens (addAccessToken s t e a)"
  with True show ?thesis
    using slot_after_addAccessToken [of a s t e] by (simp add: isAuthenticated_def)
next
  case False
  then have k: "or_default a = DEFAULT_KEY"
    by (cases a) auto
  assume "accessTokens s' = accessTokens (addAccessToken s t e a)"
  then show ?thesis
    using default_after_addAccessToken [of s t e a]
    by (auto simp: isAuthenticated_def k get_property_default)
qed

lemma getAccessToken_after:
  assumes "accessTokens s' = accessTokens (addAccessToken s t e a)"
  shows "getAccessToken s' a
     = (if truthy a \<or> \<not> isAuthenticated s None then Some t else getAccessToken s None)"
proof -
  have "getAccessToken s' a
      = getAccessToken (s'\<lparr>accessTokens := accessTokens (addAccessToken s t e a)\<rparr>) a"
    by (rule getters_only_read_accessTokens) (simp add: assms)
  then show ?thesis
    by (simp only: getAccessToken_after_addAccessToken)
qed

text \<open>
  Claim C6, as amended. After \<open>checkSession(a)\<close> has resolved \<open>true\<close>, \<open>isAuthenticated(a)\<close>
  holds and \<open>getAccessToken(a)\<close> is the access token of that call's result if \<open>a\<close> is a
  non-empty audience or the default slot was empty, and otherwise the token the
  default slot already held. After \<open>parseHash()\<close> has resolved, \<open>isAuthenticated()\<close> holds
  and \<open>getAccessToken()\<close> is the call's token if the default slot was empty and the token
  it already held otherwise. Every successful \<open>loadProfile\<close>, in whatever state, resolves,
  assigns the entry \<open>(accessToken, now + expiresIn * 1000)\<close> to the default slot if it was
  empty and to the audience's name if a non-empty audience was given, and changes the
  cache in no other way; it stores the identity token and the profile and invokes every
  subscriber once with \<open>authenticated = true\<close>. \<open>checkSession\<close> on an empty default slot
  and \<open>parseHash\<close> do the same, \<open>parseHash\<close> with no audience.
\<close>

theorem successful_authentication:
  fixes s :: "('p, 'f) Auth0Web"
    and audience scope :: "string option" and r :: AuthResult and now :: nat and p :: 'p
  defines "entry \<equiv> \<lparr>TokenDetails.accessToken = AuthResult.accessToken r,
                    expiresAt = int now + expiresIn r * 1000\<rparr>"
    and "l \<equiv> snd (loadProfile s r audience now (Inr p))"
    and "c \<equiv> snd (checkSession s audience scope (Inr r) now (Inr p))"
    and "h \<equiv> snd (parseHash s (Inr r) now (Inr p))"
  shows
    "(fst (checkSession s audience scope checked now response) = Resolved True \<longrightarrow>
        (\<exists>r'. checked = Inr r'
           \<and> isAuthenticated (snd (checkSession s audience scope checked now response)) audience
           \<and> getAccessToken (snd (checkSession s audience scope checked now response)) audience
               = (if truthy audience \<or> \<not> isAuthenticated s None
                  then Some (AuthResult.accessToken r') else getAccessToken s None)))
     \<and> (fst (parseHash s parsed now response) = Resolved v \<longrightarrow>
        (\<exists>r'. parsed = Inr r'
           \<and> isAuthenticated (snd (parseHash s parsed now response)) None
           \<and> getAccessToken (snd (parseHash s parsed now response)) None
               = (if \<not> isAuthenticated s None
                  then Some (AuthResult.accessToken r') else getAccessToken s None)))
     \<and> fst (loadProfile s r audience now (Inr p)) = Resolved None
     \<and> accessTokens l =
         (case audience of
            None \<Rightarrow>
              if isAuthenticated s None then accessTokens s
              else put_property (accessTokens s) DEFAULT_KEY entry
          | Some a \<Rightarrow>
              if a = [] then
                if isAuthenticated s None then accessTokens s
                else put_property (accessTokens s) DEFAULT_KEY entry
              else
                put_property
                  (if isAuthenticated s None then accessTokens s
                   else put_property (accessTokens s) DEFAULT_KEY entry) a entry)
     \<and> (\<forall>a. audience = Some a \<and> a \<noteq> [] \<longrightarrow>
           get_property (accessTokens l) a = JsEntry entry
           \<and> isAuthenticated l audience
           \<and> getAccessToken l audience = Some (AuthResult.accessToken r))
     \<and> (\<not> isAuthenticated s None \<longrightarrow>
           get_property (accessTokens l) DEFAULT_KEY = JsEntry entry
           \<and> getAccessToken l None = Some (AuthResult.accessToken r))
     \<and> (isAuthenticated s None \<and> audience \<noteq> Some DEFAULT_KEY \<longrightarrow>
           get_property (accessTokens l) DEFAULT_KEY = get_property (accessTokens s) DEFAULT_KEY)
     \<and> isAuthenticated l None
     \<and> idToken l = Some (AuthResult.idToken r)
     \<and> getProfile l = Some p
     \<and> notifications (effects l)
         = notifications (effects s) @ map (\<lambda>e. (snd e, True, None)) (own_entries (subscribers s))
     \<and> mset (own_entries (subscribers s)) = mset (subscribers s)
     \<and> (\<not> isAuthenticated s None \<longrightarrow>
           fst (checkSession s audience scope (Inr r) now (Inr p)) = Resolved True
           \<and> accessTokens c = accessTokens l
           \<and> idToken c = Some (AuthResult.idToken r)
           \<and> getProfile c = Some p
           \<and> notifications (effects c)
               = notifications (effects s)
                   @ map (\<lambda>e. (snd e, True, None)) (own_entries (subscribers s)))
     \<and> (\<exists>v. fst (parseHash s (Inr r) now (Inr p)) = Resolved v)
     \<and> accessTokens h = (if isAuthenticated s None then accessTokens s
                          else put_property (accessTokens s) DEFAULT_KEY entry)
     \<and> idToken h = Some (AuthResult.idToken r)
     \<and> getProfile h = Some p
     \<and> notifications (effects h)
         = notifications (effects s) @ map (\<lambda>e. (snd e, True, None)) (own_entries (subscribers s))"
proof -
  have A: "\<exists>r'. checked = Inr r'
           \<and> isAuthenticated (snd (checkSession s audience scope checked now response)) audience
           \<and> getAccessToken (snd (checkSession s audience scope checked now response)) audience
               = (if truthy audience \<or> \<not> isAuthenticated s None
                  then Some (AuthResult.accessToken r') else getAccessToken s None)"
    if "fst (checkSession s audience scope checked now response) = Resolved True"
  proof -
    from that obtain r' :: AuthResult where "checked = Inr r'" and
      t: "accessTokens (snd (checkSession s audience scope checked now response))
         = accessTokens (addAccessToken s (AuthResult.accessToken r')
              (expiresIn r' * 1000 + int now) audience)"
      by (rule checkSession_resolves_true)
    then show ?thesis
      using isAuthenticated_after_addAccessToken [OF t] getAccessToken_after [OF t]
      by blast
  qed
  have B: "\<exists>r'. parsed = Inr r'
           \<and> isAuthenticated (snd (parseHash s parsed now response)) None
           \<and> getAccessToken (snd (parseHash s parsed now response)) None
               = (if \<not> isAuthenticated s None
                  then Some (AuthResult.accessToken r') else getAccessToken s None)"
    if "fst (parseHash s parsed now response) = Resolved v"
  proof -
    from that obtain r' :: AuthResult and p' where "parsed = Inr r'" and "response = Inr p'" and
      t: "accessTokens (snd (parseHash s parsed now response))
         = accessTokens (addAccessToken s (AuthResult.accessToken r')
              (expiresIn r' * 1000 + int now) None)"
      by (rule parseHash_resolves)
    then show ?thesis
      using isAuthenticated_after_addAccessToken [OF t] getAccessToken_after [OF t]
      by auto
  qed
  note L = loadProfile_succeeds [where s = s and audience = audience and r = r and now = now
      and p = p, folded entry_def l_def]
  have L1: "fst (loadProfile s r audience now (Inr p)) = Resolved None"
    by (simp add: loadProfile_Inr_fields)
  have L3: "get_property (accessTokens l) a = JsEntry entry
           \<and> isAuthenticated l audience
           \<and> getAccessToken l audience = Some (AuthResult.accessToken r)"
    if "audience = Some a \<and> a \<noteq> []" for a
  proof -
    from that have "truthy audience" and "or_default audience = a"
      by auto
    with L(3) have g: "get_property (accessTokens l) (or_default audience) = JsEntry entry"
      by simp
    from getters_of_entry [OF g] g \<open>or_default audience = a\<close> show ?thesis
      by (simp add: entry_def)
  qed
  have L4: "get_property (accessTokens l) DEFAULT_KEY = JsEntry entry
           \<and> getAccessToken l None = Some (AuthResult.accessToken r)"
    if "\<not> isAuthenticated s None"
    using L(4) [OF that]
    by (simp add: getAccessToken_def entry_def)
  have L5: "idToken l = Some (AuthResult.idToken r) \<and> getProfile l = Some p
     \<and> notifications (effects l)
         = notifications (effects s) @ map (\<lambda>e. (snd e, True, None)) (own_entries (subscribers s))"
    by (simp add: l_def loadProfile_Inr_fields getProfile_def)
  have C: "fst (checkSession s audience scope (Inr r) now (Inr p)) = Resolved True
           \<and> accessTokens c = accessTokens l
           \<and> idToken c = Some (AuthResult.idToken r)
           \<and> getProfile c = Some p
           \<and> notifications (effects c)
               = notifications (effects s)
                   @ map (\<lambda>e. (snd e, True, None)) (own_entries (subscribers s))"
    if n: "\<not> isAuthenticated s None"
    unfolding c_def l_def checkSession_unauthenticated [OF n]
    by (simp add: loadProfile_Inr_fields getProfile_def)
  have D: "(\<exists>v. fst (parseHash s (Inr r) now (Inr p)) = Resolved v)
     \<and> accessTokens h = (if isAuthenticated s None then accessTokens s
                          else put_property (accessTokens s) DEFAULT_KEY entry)
     \<and> idToken h = Some (AuthResult.idToken r)
     \<and> getProfile h = Some p
     \<and> notifications (effects h)
         = notifications (effects s) @ map (\<lambda>e. (snd e, True, None)) (own_entries (subscribers s))"
    unfolding h_def entry_def parseHash_Inr
    by (simp add: loadProfile_Inr_fields getProfile_def accessTokens_addAccessToken
        isAuthenticated_default add.commute)
  from A B L1 L(1) L3 L4 L(5) L(2) L5 C D mset_own_entries [of "subscribers s"]
  show ?thesis
    by blast
qed

theorem successful_authentication_witness:
  "\<not> isAuthenticated two_subscribers None
   \<and> fst (checkSession two_subscribers (Some ''urn:api'') None (Inr scenario_result)
        1700000001000 (Inr ''alice'')) = Resolved True
   \<and> fst (parseHash two_subscribers (Inr scenario_result) 1700000001000 (Inr ''alice''))
       = Resolved None
   \<and> isAuthenticated established (Some ''urn:api'')
   \<and> getAccessToken established (Some ''urn:api'') = Some ''tok1''
   \<and> getAccessToken (snd (parseHash two_subscribers (Inr scenario_result) 1700000001000
        (Inr ''alice''))) None = Some ''tok1''
   \<and> isAuthenticated established None
   \<and> Some ''urn:other'' \<noteq> Some DEFAULT_KEY
   \<and> get_property (accessTokens (snd (loadProfile established refreshed (Some ''urn:other'')
        1700000005000 (Inr ''bob'')))) ''urn:other''
       = JsEntry \<lparr>TokenDetails.accessToken = ''tok2'', expiresAt = 1700007205000\<rparr>
   \<and> get_property (accessTokens (snd (loadProfile established refreshed (Some ''urn:other'')
        1700000005000 (Inr ''bob'')))) DEFAULT_KEY
       = JsEntry \<lparr>TokenDetails.accessToken = ''tok1'', expiresAt = 1700003601000\<rparr>"
proof -
  note t1 = successful_authentication [where s = two_subscribers
      and audience = "Some ''urn:api''" and scope = None and checked = "Inr scenario_result"
      and now = 1700000001000 and response = "Inr ''alice''" and parsed = "Inr scenario_result"
      and v = None and r = scenario_result and p = "''alice''"]
  note t2 = successful_authentication [where s = established
      and audience = "Some ''urn:other''" and scope = None and checked = "Inr refreshed"
      and now = 1700000005000 and response = "Inr ''bob''" and parsed = "Inr refreshed"
      and v = None and r = refreshed and p = "''bob''"]
  have n: "\<not> isAuthenticated two_subscribers None"
    by (simp add: isAuthenticated_default empty_object_def)
  have c: "fst (checkSession two_subscribers (Some ''urn:api'') None (Inr scenario_result)
        1700000001000 (Inr ''alice'')) = Resolved True"
    by (simp add: checkSession_unauthenticated [OF n])
  have h: "fst (parseHash two_subscribers (Inr scenario_result) 1700000001000 (Inr ''alice''))
        = Resolved None"
    by (simp add: parseHash_Inr loadProfile_Inr_fields)
  have a: "isAuthenticated established None"
    by (simp add: isAuthenticated_default established_eval DEFAULT_KEY_def)
  have o: "Some ''urn:other'' \<noteq> Some DEFAULT_KEY"
    by (simp add: DEFAULT_KEY_def)
  from t1 c have "\<exists>r'. (Inr scenario_result :: Auth0Error + AuthResult) = Inr r'
      \<and> isAuthenticated established (Some ''urn:api'')
      \<and> getAccessToken established (Some ''urn:api'')
          = (if truthy (Some ''urn:api'') \<or> \<not> isAuthenticated two_subscribers None
             then Some (AuthResult.accessToken r') else getAccessToken two_subscribers None)"
    unfolding established_def by blast
  then have w1: "isAuthenticated established (Some ''urn:api'')
      \<and> getAccessToken established (Some ''urn:api'') = Some ''tok1''"
    by (auto simp: scenario_result_def)
  from t1 h have "\<exists>r'. (Inr scenario_result :: Auth0Error + AuthResult) = Inr r'
      \<and> getAccessToken (snd (parseHash two_subscribers (Inr scenario_result) 1700000001000
           (Inr ''alice''))) None
          = (if \<not> isAuthenticated two_subscribers None
             then Some (AuthResult.accessToken r') else getAccessToken two_subscribers None)"
    by blast
  with n have w2: "getAccessToken (snd (parseHash two_subscribers (Inr scenario_result)
      1700000001000 (Inr ''alice''))) None = Some ''tok1''"
    by (auto simp: scenario_result_def)
  from t2 have "get_property (accessTokens (snd (loadProfile established refreshed
      (Some ''urn:other'') 1700000005000 (Inr ''bob'')))) ''urn:other''
        = JsEntry \<lparr>TokenDetails.accessToken = AuthResult.accessToken refreshed,
                   expiresAt = int 1700000005000 + expiresIn refreshed * 1000\<rparr>"
    by blast
  then have w3: "get_property (accessTokens (snd (loadProfile established refreshed
      (Some ''urn:other'') 1700000005000 (Inr ''bob'')))) ''urn:other''
        = JsEntry \<lparr>TokenDetails.accessToken = ''tok2'', expiresAt = 1700007205000\<rparr>"
    by (simp add: refreshed_def)
  from t2 a o have "get_property (accessTokens (snd (loadProfile established refreshed
      (Some ''urn:other'') 1700000005000 (Inr ''bob'')))) DEFAULT_KEY
        = get_property (accessTokens established) DEFAULT_KEY"
    by blast
  then have w4: "get_property (accessTokens (snd (loadProfile established refreshed
      (Some ''urn:other'') 1700000005000 (Inr ''bob'')))) DEFAULT_KEY
        = JsEntry \<lparr>TokenDetails.accessToken = ''tok1'', expiresAt = 1700003601000\<rparr>"
    by (simp add: get_property_def established_eval DEFAULT_KEY_def)
  from n c h a o w1 w2 w3 w4 show ?thesis
    by blast
qed

text \<open>
  Claim C6 as stated says \<open>getAccessToken\<close> returns the token of the successful call, and
  that the entry stored on the profile-loading path carries the new \<open>expiresAt\<close>. On an
  established session \<open>parseHash()\<close> resolves, yet the default slot keeps the first entry
  and \<open>getAccessToken()\<close> is still the first token, not the one the fragment carried.
\<close>

theorem parseHash_keeps_cached_token:
  "isAuthenticated established None
   \<and> getAccessToken established None = Some ''tok1''
   \<and> fst (parseHash established (Inr refreshed) 1700000005000 (Inr ''bob'')) = Resolved None
   \<and> AuthResult.accessToken refreshed = ''tok2''
   \<and> getAccessToken (snd (parseHash established (Inr refreshed) 1700000005000 (Inr ''bob'')))
        None = Some ''tok1''
   \<and> get_property (accessTokens (snd (parseHash established (Inr refreshed) 1700000005000
        (Inr ''bob'')))) ''default''
       = JsEntry \<lparr>TokenDetails.accessToken = ''tok1'', expiresAt = 1700003601000\<rparr>"
proof -
  have d: "own (accessTokens established) DEFAULT_KEY \<noteq> None"
    by (simp add: established_eval DEFAULT_KEY_def)
  show ?thesis
    by (simp add: isAuthenticated_default getAccessToken_default parseHash_Inr
        loadProfile_Inr_fields addAccessToken_default_present [OF d] established_eval
        refreshed_def DEFAULT_KEY_def get_property_def)
qed

text \<open>
  Claim C4. \<open>loadProfile\<close> settles its promise with \<open>resolve()\<close>, so the promise of
  \<open>parseHash\<close>, declared \<open>Promise<Auth0UserProfile>\<close>, resolves with \<open>undefined\<close> and not
  with the profile, which is only stored in the instance. The fragment is cleared.
\<close>

theorem parseHash_resolves_undefined:
  "fst (parseHash two_subscribers (Inr scenario_result) 1700000001000 (Inr ''alice'')) = Resolved None
   \<and> getProfile (snd (parseHash two_subscribers (Inr scenario_result) 1700000001000 (Inr ''alice'')))
       = Some ''alice''
   \<and> location_hash two_subscribers = ''#access_token=tok1''
   \<and> location_hash (snd (parseHash two_subscribers (Inr scenario_result) 1700000001000 (Inr ''alice'')))
       = []"
  by (simp add: parseHash_Inr loadProfile_Inr_fields getProfile_def two_subscribers_def
      subscribe_def new_Auth0Web_def)

text \<open>
  Claim C7. When \<open>userInfo\<close> fails, the promise of \<open>loadProfile\<close> rejects with the SDK's
  error, and the token cache, the profile, the identity token, the subscriber registry
  and the URL fragment are as before; no subscriber is invoked, and the only effect is
  the \<open>userInfo\<close> call itself.
\<close>

theorem loadProfile_failure_leaves_state:
  "fst (loadProfile s authResult audience now (Inl err)) = Rejected err
   \<and> accessTokens (snd (loadProfile s authResult audience now (Inl err))) = accessTokens s
   \<and> profile (snd (loadProfile s authResult audience now (Inl err))) = profile s
   \<and> idToken (snd (loadProfile s authResult audience now (Inl err))) = idToken s
   \<and> subscribers (snd (loadProfile s authResult audience now (Inl err))) = subscribers s
   \<and> location_hash (snd (loadProfile s authResult audience now (Inl err))) = location_hash s
   \<and> effects (snd (loadProfile s authResult audience now (Inl err)))
       = effects s @ [UserInfoCall (AuthResult.accessToken authResult)]
   \<and> notifications (effects (snd (loadProfile s authResult audience now (Inl err))))
       = notifications (effects s)"
  by simp

theorem loadProfile_failure_leaves_state_witness:
  "fst (loadProfile established scenario_result (Some ''urn:other'') 1700000002000 (Inl failure))
     = Rejected failure
   \<and> getAccessToken (snd (loadProfile established scenario_result (Some ''urn:other'') 1700000002000
        (Inl failure))) (Some ''urn:other'') = None
   \<and> profile (snd (loadProfile established scenario_result (Some ''urn:other'') 1700000002000
        (Inl failure))) = Some ''alice''
   \<and> notifications (effects (snd (loadProfile established scenario_result (Some ''urn:other'')
        1700000002000 (Inl failure)))) = [(''f'', True, None), (''g'', True, None)]"
  using loadProfile_failure_leaves_state
    [of established scenario_result "Some ''urn:other''" 1700000002000 failure]
  by (simp add: getAccessToken_def established_eval get_property_def
      Object_prototype_names_def)

section \<open>\<open>signOut\<close>\<close>

text \<open>
  What \<open>signOut\<close> does, for every state: the cache is the empty object, so
  \<open>getAccessToken\<close> is absent for every audience and \<open>isAuthenticated\<close> is true exactly for
  the names the empty object inherits; the profile and the identity token are removed;
  every registered subscriber is invoked once with \<open>authenticated = false\<close>; the SDK's
  \<open>logout\<close> is called on the state \<open>clearSession\<close> left, after the notifications.
\<close>

lemma getters_on_empty_object:
  "getAccessToken (s\<lparr>accessTokens := empty_object\<rparr>) a = None"
  "isAuthenticated (s\<lparr>accessTokens := empty_object\<rparr>) a
     = (or_default a = ''__proto__'' \<or> or_default a \<in> set Object_prototype_names)"
  by (auto simp: getAccessToken_def isAuthenticated_def get_property_def empty_object_def)

lemma signOut_clears_session:
  "accessTokens (signOut s returnTo) = empty_object
   \<and> (\<forall>a. getAccessToken (signOut s returnTo) a = None)
   \<and> (\<forall>a. isAuthenticated (signOut s returnTo) a
          = (or_default a = ''__proto__'' \<or> or_default a \<in> set Object_prototype_names))
   \<and> \<not> isAuthenticated (signOut s returnTo) None
   \<and> getProfile (signOut s returnTo) = None
   \<and> idToken (signOut s returnTo) = None
   \<and> subscribers (signOut s returnTo) = subscribers s
   \<and> notifications (effects (signOut s returnTo))
       = notifications (effects s) @ map (\<lambda>e. (snd e, False, None)) (own_entries (subscribers s))
   \<and> mset (own_entries (subscribers s)) = mset (subscribers s)
   \<and> record_effect (clearSession s) [Logout returnTo (clientID (currentProperties s))]
       = signOut s returnTo
   \<and> accessTokens (clearSession s) = empty_object
   \<and> profile (clearSession s) = None
   \<and> idToken (clearSession s) = None
   \<and> effects (signOut s returnTo)
       = effects s @ map (\<lambda>e. Invoke (snd e) False None) (own_entries (subscribers s))
           @ [Logout returnTo (clientID (currentProperties s))]"
proof -
  have g: "getAccessToken (signOut s returnTo) a = None"
    "isAuthenticated (signOut s returnTo) a
       = (or_default a = ''__proto__'' \<or> or_default a \<in> set Object_prototype_names)" for a
    by (auto simp: signOut_def clearSession_def Let_def getAccessToken_def
        isAuthenticated_def get_property_def empty_object_def)
  have n: "\<not> isAuthenticated (signOut s returnTo) None"
    by (simp add: g DEFAULT_KEY_def Object_prototype_names_def)
  have r: "accessTokens (signOut s returnTo) = empty_object
   \<and> getProfile (signOut s returnTo) = None
   \<and> idToken (signOut s returnTo) = None
   \<and> subscribers (signOut s returnTo) = subscribers s
   \<and> notifications (effects (signOut s returnTo))
       = notifications (effects s) @ map (\<lambda>e. (snd e, False, None)) (own_entries (subscribers s))
   \<and> mset (own_entries (subscribers s)) = mset (subscribers s)
   \<and> record_effect (clearSession s) [Logout returnTo (clientID (currentProperties s))]
       = signOut s returnTo
   \<and> accessTokens (clearSession s) = empty_object
   \<and> profile (clearSession s) = None
   \<and> idToken (clearSession s) = None
   \<and> effects (signOut s returnTo)
       = effects s @ map (\<lambda>e. Invoke (snd e) False None) (own_entries (subscribers s))
           @ [Logout returnTo (clientID (currentProperties s))]"
    by (simp add: signOut_def clearSession_def Let_def getProfile_def mset_own_entries)
  from g n r show ?thesis by blast
qed

text \<open>
  Claim C5. After \<open>signOut\<close>, \<open>isAuthenticated\<close> is not false for every audience that had a
  cached entry. The session established by \<open>checkSession("toString")\<close> has an entry for
  that audience; after \<open>signOut\<close> the cache is the empty object and \<open>getAccessToken\<close> is
  absent, but \<open>isAuthenticated("toString")\<close> is true, by the inherited member.
\<close>

theorem signOut_inherited_name_stays_authenticated:
  "get_property (accessTokens named_toString) ''toString''
     = JsEntry \<lparr>TokenDetails.accessToken = ''tok1'', expiresAt = 1700003601000\<rparr>
   \<and> getAccessToken named_toString (Some ''toString'') = Some ''tok1''
   \<and> accessTokens (signOut named_toString None) = empty_object
   \<and> getAccessToken (signOut named_toString None) (Some ''toString'') = None
   \<and> isAuthenticated (signOut named_toString None) (Some ''toString'')"
proof -
  have n: "\<not> isAuthenticated two_subscribers None"
    by (simp add: isAuthenticated_default empty_object_def)
  have t: "accessTokens named_toString
      = put_property (put_property empty_object DEFAULT_KEY
            \<lparr>TokenDetails.accessToken = ''tok1'', expiresAt = 1700003601000\<rparr>) ''toString''
          \<lparr>TokenDetails.accessToken = ''tok1'', expiresAt = 1700003601000\<rparr>"
    by (simp add: named_toString_def checkSession_unauthenticated [OF n] loadProfile_Inr_fields
        accessTokens_addAccessToken scenario_result_def empty_object_def)
  show ?thesis
    by (simp add: t getAccessToken_def isAuthenticated_def signOut_def clearSession_def Let_def
        get_property_def put_property_def empty_object_def Object_prototype_names_def)
qed

section \<open>The default slot\<close>

text \<open>
  In every reachable state, if the cache has any own entry or a prototype entry then
  its default slot is occupied. \<open>addAccessToken\<close> always leaves the default slot occupied:
  it stores the new entry there if the slot was empty, leaves an occupied slot as it
  was if the audience is not the string \<open>'default'\<close>, and replaces it by the new entry if
  it is. A \<open>checkSession\<close> that resolves \<open>true\<close> and a \<open>parseHash\<close> that resolves change the
  cache exactly as \<open>addAccessToken\<close> does.
\<close>

lemma default_seeded_addAccessToken: "default_seeded (addAccessToken s t e a)"
  by (simp add: default_seeded_def default_after_addAccessToken)

lemma default_seeded_same:
  "accessTokens s' = accessTokens s \<Longrightarrow> default_seeded s \<Longrightarrow> default_seeded s'"
  by (simp add: default_seeded_def)

lemma default_seeded_add_same:
  "accessTokens s' = accessTokens (addAccessToken s t e a) \<Longrightarrow> default_seeded s'"
  using default_seeded_addAccessToken [of s t e a] by (simp add: default_seeded_def)

lemma reachable_default_seeded: "reachable s \<Longrightarrow> default_seeded s"
proof (induction rule: reachable.induct)
  case (constructed properties fragment)
  show ?case by (simp add: default_seeded_def new_Auth0Web_def)
next
  case (after_signIn s)
  then show ?case by (simp add: default_seeded_def signIn_def)
next
  case (after_signOut s returnTo)
  show ?case by (simp add: default_seeded_def signOut_def clearSession_def Let_def)
next
  case (after_parseHash s parsed now response)
  then show ?case
    by (cases parsed; cases response)
       (auto simp: accessTokens_parseHash intro: default_seeded_same default_seeded_add_same)
next
  case (after_checkSession s audience scope checked now response)
  then show ?case
    by (cases checked; cases response; cases "isAuthenticated s None")
       (auto simp: accessTokens_checkSession intro: default_seeded_same default_seeded_add_same)
next
  case (after_subscribe s subscriber now)
  then show ?case by (simp add: default_seeded_def subscribe_def)
next
  case (after_unsubscribe s subscriberKey)
  then show ?case by (simp add: default_seeded_def unsubscribe_def)
next
  case (after_loadProfile s authResult audience now response)
  then show ?case
    by (cases response)
       (auto simp: accessTokens_loadProfile intro: default_seeded_same default_seeded_add_same)
qed


lemma default_slot_invariant:
  "(reachable s \<longrightarrow>
      ((\<exists>k. own (accessTokens s) k \<noteq> None) \<or> proto (accessTokens s) \<noteq> None \<longrightarrow>
         own (accessTokens s) DEFAULT_KEY \<noteq> None))
   \<and> own (accessTokens (addAccessToken s t e a)) DEFAULT_KEY \<noteq> None
   \<and> (own (accessTokens s) DEFAULT_KEY = None \<longrightarrow>
        own (accessTokens (addAccessToken s t e a)) DEFAULT_KEY
          = Some \<lparr>TokenDetails.accessToken = t, expiresAt = e\<rparr>)
   \<and> (a \<noteq> Some DEFAULT_KEY \<and> own (accessTokens s) DEFAULT_KEY \<noteq> None \<longrightarrow>
        own (accessTokens (addAccessToken s t e a)) DEFAULT_KEY = own (accessTokens s) DEFAULT_KEY)
   \<and> (a = Some DEFAULT_KEY \<longrightarrow>
        own (accessTokens (addAccessToken s t e a)) DEFAULT_KEY
          = Some \<lparr>TokenDetails.accessToken = t, expiresAt = e\<rparr>)
   \<and> (fst (checkSession s a scope checked now response) = Resolved True \<longrightarrow>
        (\<exists>r. checked = Inr r
           \<and> accessTokens (snd (checkSession s a scope checked now response))
               = accessTokens (addAccessToken s (AuthResult.accessToken r)
                   (int now + expiresIn r * 1000) a)))
   \<and> (fst (parseHash s parsed now response) = Resolved v \<longrightarrow>
        (\<exists>r. parsed = Inr r
           \<and> accessTokens (snd (parseHash s parsed now response))
               = accessTokens (addAccessToken s (AuthResult.accessToken r)
                   (int now + expiresIn r * 1000) None)))"
proof -
  have I: "own (accessTokens s) DEFAULT_KEY \<noteq> None"
    if "reachable s" and "(\<exists>k. own (accessTokens s) k \<noteq> None) \<or> proto (accessTokens s) \<noteq> None"
    using reachable_default_seeded [OF that(1)] that(2)
    by (auto simp: default_seeded_def empty_object_def)
  have A: "own (accessTokens (addAccessToken s t e a)) DEFAULT_KEY \<noteq> None"
    by (rule default_after_addAccessToken)
  have B: "own (accessTokens (addAccessToken s t e a)) DEFAULT_KEY
          = Some \<lparr>TokenDetails.accessToken = t, expiresAt = e\<rparr>"
    if "own (accessTokens s) DEFAULT_KEY = None"
    using that by (cases a) (auto simp: accessTokens_addAccessToken own_default_put_property)
  have C: "own (accessTokens (addAccessToken s t e a)) DEFAULT_KEY = own (accessTokens s) DEFAULT_KEY"
    if "a \<noteq> Some DEFAULT_KEY" and "own (accessTokens s) DEFAULT_KEY \<noteq> None"
    using that by (cases a) (auto simp: accessTokens_addAccessToken own_default_put_property)
  have F: "own (accessTokens (addAccessToken s t e a)) DEFAULT_KEY
          = Some \<lparr>TokenDetails.accessToken = t, expiresAt = e\<rparr>"
    if "a = Some DEFAULT_KEY"
    using that by (simp add: accessTokens_addAccessToken put_property_def DEFAULT_KEY_def)
  have D: "\<exists>r. checked = Inr r
           \<and> accessTokens (snd (checkSession s a scope checked now response))
               = accessTokens (addAccessToken s (AuthResult.accessToken r)
                   (int now + expiresIn r * 1000) a)"
    if "fst (checkSession s a scope checked now response) = Resolved True"
    using checkSession_resolves_true [OF that] by (metis add.commute)
  have E: "\<exists>r. parsed = Inr r
           \<and> accessTokens (snd (parseHash s parsed now response))
               = accessTokens (addAccessToken s (AuthResult.accessToken r)
                   (int now + expiresIn r * 1000) None)"
    if "fst (parseHash s parsed now response) = Resolved v"
    using parseHash_resolves [OF that] by (metis add.commute)
  from I A B C D E F show ?thesis by blast
qed

text \<open>
  Claim C2. An occupied default slot can be overwritten: the audience \<open>'default'\<close> is
  the default slot's own key, so \<open>checkSession("default")\<close> on the session of the
  scenario passes the guard that protects the slot, resolves \<open>true\<close> and replaces the
  default entry by the new one; \<open>getAccessToken()\<close> is then the new token.
\<close>

theorem default_slot_overwritten:
  "isAuthenticated established None
   \<and> get_property (accessTokens established) ''default''
       = JsEntry \<lparr>TokenDetails.accessToken = ''tok1'', expiresAt = 1700003601000\<rparr>
   \<and> fst (checkSession established (Some ''default'') None (Inr refreshed) 1700000005000
        (Inr ''bob'')) = Resolved True
   \<and> get_property (accessTokens (snd (checkSession established (Some ''default'') None
        (Inr refreshed) 1700000005000 (Inr ''bob'')))) ''default''
       = JsEntry \<lparr>TokenDetails.accessToken = ''tok2'', expiresAt = 1700007205000\<rparr>
   \<and> getAccessToken (snd (checkSession established (Some ''default'') None
        (Inr refreshed) 1700000005000 (Inr ''bob''))) None = Some ''tok2''"
proof -
  have a: "isAuthenticated established None"
    by (simp add: isAuthenticated_default established_eval DEFAULT_KEY_def)
  have d: "own (accessTokens established) DEFAULT_KEY \<noteq> None"
    by (simp add: established_eval DEFAULT_KEY_def)
  show ?thesis
    by (simp add: a checkSession_authenticated [OF a] addAccessToken_default_present [OF d]
        getAccessToken_def established_eval refreshed_def DEFAULT_KEY_def get_property_def
        put_property_def)
qed

section \<open>Subscriptions\<close>

text \<open>
  When the clock value is not a key of the registry, \<open>subscribe\<close> appends one
  registration under it, and the returned closure removes that one and restores the
  registry; a closure leaves every other key as it is.
\<close>

lemma update_fresh: "k \<notin> fst ` set al \<Longrightarrow> AList.update k f al = al @ [(k, f)]"
  by (induction al) auto

lemma delete_fresh: "k \<notin> fst ` set al \<Longrightarrow> AList.delete k (al @ [(k, f)]) = al"
  by (induction al) auto

lemma subscribe_fresh_key:
  assumes "k \<notin> fst ` set (subscribers s)"
  shows "fst (subscribe s f k) = k"
    and "subscribers (snd (subscribe s f k)) = subscribers s @ [(k, f)]"
    and "subscribers (unsubscribe (snd (subscribe s f k)) k) = subscribers s"
  using assms
  by (simp_all add: subscribe_def unsubscribe_def update_fresh delete_fresh)

lemma unsubscribe_keeps_others:
  "k' \<noteq> k \<Longrightarrow> map_of (subscribers (unsubscribe s k)) k' = map_of (subscribers s) k'"
  by (simp add: unsubscribe_def delete_conv)

text \<open>
  Claim C8. The key is \<open>Date.now()\<close>, so two calls of \<open>subscribe\<close> within one
  millisecond get the same key. The second registration replaces the first: \<open>f\<close> is no
  longer notified although it never unsubscribed, and the closure returned to \<open>f\<close>
  removes \<open>g\<close>, which is then not notified either.
\<close>

theorem subscribe_same_timestamp:
  "fst (subscribe (new_Auth0Web scenario_properties [] :: (string, string) Auth0Web)
          ''f'' 1700000000000) = 1700000000000
   \<and> subscribers same_tick = [(1700000000000, ''g'')]
   \<and> notifications (effects (clearSession same_tick)) = [(''g'', False, None)]
   \<and> subscribers (unsubscribe same_tick 1700000000000) = []
   \<and> notifications (effects (clearSession (unsubscribe same_tick 1700000000000))) = []"
  by (simp add: same_tick_def subscribe_def unsubscribe_def new_Auth0Web_def clearSession_def
      own_entries_def empty_object_def)

end
